theory Spec2Isabelle
  imports Main
begin

section \<open>The memento plugin of jQuery Sketchable: data\<close>

text \<open>
  The source is \<^verbatim>\<open>src/jquery.sketchable.memento.js\<close>. The class \<^verbatim>\<open>MementoCanvas\<close>
  keeps two private variables, \<^verbatim>\<open>stack\<close> (an array of snapshots) and \<^verbatim>\<open>stpos\<close> (an
  index into it), and works on the data of one sketchable instance: the canvas element
  and the array \<^verbatim>\<open>data.strokes\<close>.

  JavaScript arrays are objects with an identity. The stroke arrays are the only objects
  that both the plugin and the host hold references to, so they live in an explicit store:
  \<open>arrays\<close> maps an address to the contents of the array at that address, and \<open>lim\<close> is the
  next unused address. Snapshot objects are created by \<^verbatim>\<open>save\<close> and reachable only through
  \<^verbatim>\<open>stack\<close>, so they are plain values of the list.
\<close>

type_synonym addr = nat

datatype error = TypeError

text \<open>
  The canvas is the sequence of drawing operations applied to it since it was last
  cleared. The plugin itself only draws decoded images; \<open>HostPaint\<close> stands for whatever
  the host draws while the user sketches.
\<close>

datatype 'i paint = DrawImage 'i | HostPaint nat

text \<open>A snapshot \<^verbatim>\<open>{ image: ..., strokes: ... }\<close>: a data URL and a reference to an array.\<close>

record 'i snapshot =
  image_s :: 'i
  strokes_s :: addr

text \<open>
  \<open>pending\<close> holds the \<^verbatim>\<open>Image\<close> objects whose \<^verbatim>\<open>src\<close> has been set and whose
  \<^verbatim>\<open>onload\<close> handler has not fired yet, in the order they were created.
\<close>

record ('i, 's) state =
  stack :: "'i snapshot list"
  stpos :: int
  canvas :: "'i paint list"
  data_strokes :: addr
  arrays :: "addr \<Rightarrow> 's list"
  lim :: addr
  pending :: "'i list"

text \<open>
  The event handed to \<^verbatim>\<open>save\<close>: \<^verbatim>\<open>undefined\<close> is \<open>None\<close>; an event object has an
  \<^verbatim>\<open>identifier\<close> only when it is a touch.
\<close>

datatype event = Event (identifier_e: "int option")

text \<open>\<^verbatim>\<open>evt && evt.identifier > 0\<close>; \<^verbatim>\<open>undefined > 0\<close> is false.\<close>

definition continuation :: "event option \<Rightarrow> bool" where
  "continuation evt =
     (case evt of
        None \<Rightarrow> False
      | Some e \<Rightarrow> (case identifier_e e of None \<Rightarrow> False | Some n \<Rightarrow> n > 0))"

text \<open>\<^verbatim>\<open>xs[i]\<close> for an integer \<open>i\<close>: \<^verbatim>\<open>undefined\<close> (here \<open>None\<close>) outside the array.\<close>

definition at :: "'a list \<Rightarrow> int \<Rightarrow> 'a option" where
  "at xs i = (if 0 \<le> i \<and> i < int (length xs) then Some (xs ! nat i) else None)"

text \<open>
  \<^verbatim>\<open>a.slice()\<close>: a new array, at an address not used before, with the elements of \<open>a\<close>
  (a top-level copy: the elements themselves are shared).
\<close>

definition slice :: "addr \<Rightarrow> ('i, 's) state \<Rightarrow> addr \<times> ('i, 's) state" where
  "slice a st =
     (lim st, st\<lparr>arrays := (arrays st)(lim st := arrays st a), lim := Suc (lim st)\<rparr>)"

section \<open>The operations of \<^verbatim>\<open>MementoCanvas\<close>\<close>

text \<open>
  Every operation returns the error it throws, if any, and the state it leaves behind:
  an exception of JavaScript does not undo the assignments made before it.

  \<^verbatim>\<open>$instance.sketchable('handler', fn)\<close> belongs to the host; it is taken to call
  \<^verbatim>\<open>fn(elem, data)\<close> once, at once, for the one canvas of the instance.
\<close>

definition MementoCanvas ::
  "'i paint list \<Rightarrow> addr \<Rightarrow> (addr \<Rightarrow> 's list) \<Rightarrow> addr \<Rightarrow> ('i, 's) state" where
  "MementoCanvas c d h l =
     \<lparr>stack = [], stpos = - 1, canvas = c, data_strokes = d, arrays = h, lim = l,
      pending = []\<rparr>"

definition prev :: "('i, 's) state \<Rightarrow> error option \<times> ('i, 's) state" where
  "prev st =
     (if stpos st > 0 then
        (let st1 = st\<lparr>stpos := stpos st - 1\<rparr> in
         case at (stack st1) (stpos st1) of
           None \<Rightarrow> (Some TypeError, st1)
         | Some e \<Rightarrow> (None, st1\<lparr>pending := pending st1 @ [image_s e]\<rparr>))
      else (None, st))"

definition next' :: "('i, 's) state \<Rightarrow> error option \<times> ('i, 's) state" where
  "next' st =
     (if stpos st < int (length (stack st)) - 1 then
        (let st1 = st\<lparr>stpos := stpos st + 1\<rparr> in
         case at (stack st1) (stpos st1) of
           None \<Rightarrow> (Some TypeError, st1)
         | Some e \<Rightarrow> (None, st1\<lparr>pending := pending st1 @ [image_s e]\<rparr>))
      else (None, st))"

text \<open>
  \<^verbatim>\<open>restore(snapshot)\<close>: clear the canvas, draw the decoded image, then replace
  \<^verbatim>\<open>data.strokes\<close> by a copy of the strokes of \<^verbatim>\<open>stack[stpos]\<close>, read when the handler
  runs.
\<close>

definition restore :: "'i \<Rightarrow> ('i, 's) state \<Rightarrow> error option \<times> ('i, 's) state" where
  "restore snapshot st =
     (let st1 = st\<lparr>canvas := []\<rparr>;
          st2 = st1\<lparr>canvas := canvas st1 @ [DrawImage snapshot]\<rparr>
      in case at (stack st2) (stpos st2) of
           None \<Rightarrow> (Some TypeError, st2)
         | Some e \<Rightarrow>
             (case slice (strokes_s e) st2 of
                (a, st3) \<Rightarrow> (None, st3\<lparr>data_strokes := a\<rparr>)))"

text \<open>
  The \<^verbatim>\<open>onload\<close> handler of the \<open>k\<close>-th pending image fires: the image leaves the
  pending ones and is restored. Pending images may complete in any order.
\<close>

definition onload :: "nat \<Rightarrow> ('i, 's) state \<Rightarrow> error option \<times> ('i, 's) state" where
  "onload k st =
     (if k < length (pending st) then
        restore (pending st ! k)
          (st\<lparr>pending := take k (pending st) @ drop (Suc k) (pending st)\<rparr>)
      else (None, st))"

definition undo :: "('i, 's) state \<Rightarrow> error option \<times> ('i, 's) state" where
  "undo st = prev st"

definition redo :: "('i, 's) state \<Rightarrow> error option \<times> ('i, 's) state" where
  "redo st = next' st"

definition reset :: "('i, 's) state \<Rightarrow> ('i, 's) state" where
  "reset st = st\<lparr>stack := [], stpos := - 1\<rparr>"

text \<open>
  \<^verbatim>\<open>save(evt)\<close>. The canvas encoder \<^verbatim>\<open>elem[0].toDataURL()\<close> belongs to the browser and
  is a parameter. On the first branch \<^verbatim>\<open>stack[stpos]\<close> may be \<^verbatim>\<open>undefined\<close>, and
  assigning to a property of \<^verbatim>\<open>undefined\<close> throws; an array that \<^verbatim>\<open>slice\<close> may have
  built by then is unreachable and is left out of the store.
\<close>

definition save ::
  "('i paint list \<Rightarrow> 'i) \<Rightarrow> event option \<Rightarrow> ('i, 's) state \<Rightarrow> error option \<times> ('i, 's) state" where
  "save toDataURL evt st =
     (if continuation evt then
        (case at (stack st) (stpos st) of
           None \<Rightarrow> (Some TypeError, st)
         | Some e \<Rightarrow>
             (case slice (data_strokes st) st of
                (a, st1) \<Rightarrow>
                  (None, st1\<lparr>stack := (stack st1)[nat (stpos st1) := e\<lparr>strokes_s := a\<rparr>]\<rparr>)))
      else
        (let url = toDataURL (canvas st) in
         case slice (data_strokes st) st of
           (a, st1) \<Rightarrow>
             (None, st1\<lparr>stack := stack st1 @ [\<lparr>image_s = url, strokes_s = a\<rparr>],
                        stpos := stpos st1 + 1\<rparr>)))"

text \<open>\<^verbatim>\<open>init\<close> and \<^verbatim>\<open>destroy\<close> also attach and detach the key listener, which is not state here.\<close>

definition init :: "('i, 's) state \<Rightarrow> ('i, 's) state" where
  "init st = st"

definition destroy :: "('i, 's) state \<Rightarrow> ('i, 's) state" where
  "destroy st = reset st"

subsection \<open>The plugin: callbacks and construction\<close>

text \<open>\<^verbatim>\<open>callbacks.clear\<close> is \<^verbatim>\<open>data.memento.reset().save()\<close>: \<^verbatim>\<open>save\<close> without an event.\<close>

definition clear_callback ::
  "('i paint list \<Rightarrow> 'i) \<Rightarrow> ('i, 's) state \<Rightarrow> error option \<times> ('i, 's) state" where
  "clear_callback toDataURL st = save toDataURL None (reset st)"

definition mouseup_callback ::
  "('i paint list \<Rightarrow> 'i) \<Rightarrow> event option \<Rightarrow> ('i, 's) state \<Rightarrow> error option \<times> ('i, 's) state" where
  "mouseup_callback toDataURL evt st = save toDataURL evt st"

definition destroy_callback :: "('i, 's) state \<Rightarrow> ('i, 's) state" where
  "destroy_callback st = destroy st"

text \<open>\<^verbatim>\<open>config.memento = new MementoCanvas($instance); config.memento.init().save()\<close>.\<close>

definition memento ::
  "('i paint list \<Rightarrow> 'i) \<Rightarrow> 'i paint list \<Rightarrow> addr \<Rightarrow> (addr \<Rightarrow> 's list) \<Rightarrow> addr \<Rightarrow>
   error option \<times> ('i, 's) state" where
  "memento toDataURL c d h l = save toDataURL None (init (MementoCanvas c d h l))"

section \<open>Sequences of operations, invariants and sample states\<close>

text \<open>
  The references held by the plugin and the host point below \<open>lim\<close>: every array they
  can reach has been allocated. All operations keep this.
\<close>

definition refs_ok :: "('i, 's) state \<Rightarrow> bool" where
  "refs_ok st =
     (data_strokes st < lim st \<and> list_all (\<lambda>e. strokes_s e < lim st) (stack st))"

definition cursor_inv :: "('i, 's) state \<Rightarrow> bool" where
  "cursor_inv st =
     (- 1 \<le> stpos st \<and> stpos st \<le> int (length (stack st)) - 1 \<and>
      ((stpos st = - 1) = (stack st = [])))"

text \<open>
  The public methods as commands. An exception thrown by one call ends that call only;
  the state it leaves is the state the next call sees.
\<close>

datatype op = Reset | Undo | Redo | Save "event option"

fun exec :: "('i paint list \<Rightarrow> 'i) \<Rightarrow> op \<Rightarrow> ('i, 's) state \<Rightarrow> ('i, 's) state" where
  "exec f Reset st = reset st"
| "exec f Undo st = snd (undo st)"
| "exec f Redo st = snd (redo st)"
| "exec f (Save evt) st = snd (save f evt st)"

fun run :: "('i paint list \<Rightarrow> 'i) \<Rightarrow> op list \<Rightarrow> ('i, 's) state \<Rightarrow> ('i, 's) state" where
  "run f [] st = st"
| "run f (x # xs) st = run f xs (exec f x st)"

text \<open>
  Sample data for the worked examples: an encoder that writes one character per host
  drawing operation, and a history of three snapshots (the blank canvas, one stroke, two
  strokes) with the cursor at \<open>p\<close>.
\<close>

definition url_of :: "string paint list \<Rightarrow> string" where
  "url_of c = concat (map (\<lambda>p. case p of DrawImage u \<Rightarrow> u | HostPaint n \<Rightarrow> ''+'') c)"

definition demo_arrays :: "addr \<Rightarrow> nat list" where
  "demo_arrays = (\<lambda>_. [])(1 := [7], 2 := [7, 8], 3 := [7, 8])"

definition demo :: "int \<Rightarrow> (string, nat) state" where
  "demo p =
     \<lparr>stack = [\<lparr>image_s = ''blank'', strokes_s = 0\<rparr>, \<lparr>image_s = ''one'', strokes_s = 1\<rparr>,
               \<lparr>image_s = ''two'', strokes_s = 2\<rparr>],
      stpos = p, canvas = [HostPaint 0, HostPaint 1], data_strokes = 3,
      arrays = demo_arrays, lim = 4, pending = []\<rparr>"

text \<open>
  From the cursor at ``two'': \<^verbatim>\<open>undo()\<close>, then \<^verbatim>\<open>redo()\<close>, then the decode issued by
  \<^verbatim>\<open>redo\<close> completes, then the one issued by \<^verbatim>\<open>undo\<close>.
\<close>

definition race_late_undo :: "(string, nat) state" where
  "race_late_undo = snd (onload 0 (snd (onload 1 (snd (redo (snd (undo (demo 2))))))))"

text \<open>
  The plugin is attached (one capture), two strokes are drawn, \<^verbatim>\<open>undo()\<close> is called and
  a third stroke is drawn; the mouse events carry no \<^verbatim>\<open>identifier\<close>.
\<close>

definition stroke_after_undo :: "(string, nat) state" where
  "stroke_after_undo =
     run url_of [Save None, Save (Some (Event None)), Save (Some (Event None)), Undo,
                 Save (Some (Event None))]
       (MementoCanvas [] 0 (\<lambda>_. []) 1)"


section \<open>Basic facts about the operations\<close>

lemma refs_ok_nth:
  "refs_ok st \<Longrightarrow> i < length (stack st) \<Longrightarrow> strokes_s (stack st ! i) < lim st"
  by (simp add: refs_ok_def list_all_length)


lemma prev_step:
  "0 < stpos st \<Longrightarrow> stpos st \<le> int (length (stack st)) \<Longrightarrow>
   prev st = (None, st\<lparr>stpos := stpos st - 1,
                        pending := pending st @ [image_s (stack st ! nat (stpos st - 1))]\<rparr>)"
  by (simp add: prev_def at_def Let_def)

lemma next_step:
  "- 1 \<le> stpos st \<Longrightarrow> stpos st < int (length (stack st)) - 1 \<Longrightarrow>
   next' st = (None, st\<lparr>stpos := stpos st + 1,
                         pending := pending st @ [image_s (stack st ! nat (stpos st + 1))]\<rparr>)"
  by (simp add: next'_def at_def Let_def)

lemma restore_step:
  "0 \<le> stpos st \<Longrightarrow> stpos st < int (length (stack st)) \<Longrightarrow>
   restore img st =
     (None, st\<lparr>canvas := [DrawImage img],
               arrays := (arrays st)(lim st := arrays st (strokes_s (stack st ! nat (stpos st)))),
               lim := Suc (lim st), data_strokes := lim st\<rparr>)"
  by (simp add: restore_def at_def slice_def Let_def)

lemma save_new:
  "\<not> continuation evt \<Longrightarrow>
   save f evt st =
     (None, st\<lparr>arrays := (arrays st)(lim st := arrays st (data_strokes st)),
               lim := Suc (lim st),
               stack := stack st @ [\<lparr>image_s = f (canvas st), strokes_s = lim st\<rparr>],
               stpos := stpos st + 1\<rparr>)"
  by (simp add: save_def slice_def Let_def)

lemma save_continuation:
  "continuation evt \<Longrightarrow> 0 \<le> stpos st \<Longrightarrow> stpos st < int (length (stack st)) \<Longrightarrow>
   save f evt st =
     (None, st\<lparr>arrays := (arrays st)(lim st := arrays st (data_strokes st)),
               lim := Suc (lim st),
               stack := (stack st)[nat (stpos st) :=
                          (stack st ! nat (stpos st))\<lparr>strokes_s := lim st\<rparr>]\<rparr>)"
  by (simp add: save_def slice_def at_def Let_def)

subsection \<open>Allocated references stay allocated\<close>

lemma refs_ok_prev: "refs_ok st \<Longrightarrow> refs_ok (snd (prev st))"
  by (simp add: refs_ok_def prev_def Let_def split: option.splits)

lemma refs_ok_next: "refs_ok st \<Longrightarrow> refs_ok (snd (next' st))"
  by (simp add: refs_ok_def next'_def Let_def split: option.splits)

lemma refs_ok_reset: "refs_ok st \<Longrightarrow> refs_ok (reset st)"
  by (simp add: refs_ok_def reset_def)

lemma list_all_mono_lim:
  "list_all (\<lambda>e. strokes_s e < l) xs \<Longrightarrow> list_all (\<lambda>e. strokes_s e < Suc l) xs"
  by (induction xs) auto

lemma refs_ok_restore: "refs_ok st \<Longrightarrow> refs_ok (snd (restore img st))"
  by (simp add: refs_ok_def restore_def slice_def Let_def list_all_mono_lim
      split: option.splits)

lemma refs_ok_onload:
  assumes "refs_ok st"
  shows "refs_ok (snd (onload k st))"
proof (cases "k < length (pending st)")
  case True
  have "refs_ok (st\<lparr>pending := take k (pending st) @ drop (Suc k) (pending st)\<rparr>)"
    using assms by (simp add: refs_ok_def)
  then show ?thesis
    using True by (simp add: onload_def refs_ok_restore)
next
  case False
  then show ?thesis using assms by (simp add: onload_def)
qed

lemma refs_ok_save: "refs_ok st \<Longrightarrow> refs_ok (snd (save f evt st))"
proof (cases "continuation evt")
  case False
  assume "refs_ok st"
  then show ?thesis
    by (simp add: save_new [OF False] refs_ok_def list_all_mono_lim)
next
  case True
  assume ok: "refs_ok st"
  show ?thesis
  proof (cases "at (stack st) (stpos st)")
    case None
    then show ?thesis using ok True by (simp add: save_def)
  next
    case (Some e)
    then have r: "0 \<le> stpos st" "stpos st < int (length (stack st))"
      by (simp_all add: at_def split: if_splits)
    have "list_all (\<lambda>e. strokes_s e < Suc (lim st)) (stack st)"
      using ok by (simp add: refs_ok_def list_all_mono_lim)
    then have "list_all (\<lambda>e. strokes_s e < Suc (lim st))
        ((stack st)[nat (stpos st) := (stack st ! nat (stpos st))\<lparr>strokes_s := lim st\<rparr>])"
      using r by (auto simp: list_all_length nth_list_update)
    then show ?thesis
      using ok by (simp add: save_continuation [OF True r] refs_ok_def)
  qed
qed

subsection \<open>The cursor stays inside the stack\<close>

lemma cursor_inv_prev: "cursor_inv st \<Longrightarrow> cursor_inv (snd (prev st))"
  by (auto simp: cursor_inv_def prev_def at_def Let_def)

lemma cursor_inv_next: "cursor_inv st \<Longrightarrow> cursor_inv (snd (next' st))"
  by (auto simp: cursor_inv_def next'_def at_def Let_def)

lemma cursor_inv_reset: "cursor_inv (reset st)"
  by (simp add: cursor_inv_def reset_def)

lemma cursor_inv_save: "cursor_inv st \<Longrightarrow> cursor_inv (snd (save f evt st))"
  by (auto simp: cursor_inv_def save_def at_def slice_def Let_def)

lemma cursor_inv_exec: "cursor_inv st \<Longrightarrow> cursor_inv (exec f x st)"
  by (cases x)
    (simp_all add: cursor_inv_prev cursor_inv_next cursor_inv_reset cursor_inv_save
      undo_def redo_def)

lemma cursor_inv_run: "cursor_inv st \<Longrightarrow> cursor_inv (run f xs st)"
  by (induction xs arbitrary: st) (simp_all add: cursor_inv_exec)

lemma refs_ok_demo: "refs_ok (demo p)"
  by (simp add: refs_ok_def demo_def)

section \<open>The claims\<close>

subsection \<open>Navigation\<close>

text \<open>
  C4. \<^verbatim>\<open>undo()\<close> with the cursor at or below 0 and \<^verbatim>\<open>redo()\<close> with the cursor at the
  last index change nothing and throw nothing. Otherwise, for a cursor in the range of
  the data model (from \<open>-1\<close> to the last index), \<^verbatim>\<open>undo()\<close> moves the cursor down by
  exactly one and \<^verbatim>\<open>redo()\<close> moves it up by exactly one, the entries staying as they
  are.
\<close>

theorem undo_redo_boundaries:
  "(stpos st \<le> 0 \<longrightarrow> undo st = (None, st)) \<and>
   (stpos st = int (length (stack st)) - 1 \<longrightarrow> redo st = (None, st)) \<and>
   (\<not> stpos st \<le> 0 \<and> stpos st \<le> int (length (stack st)) - 1 \<longrightarrow>
      fst (undo st) = None \<and> stpos (snd (undo st)) = stpos st - 1 \<and>
      stack (snd (undo st)) = stack st \<and> arrays (snd (undo st)) = arrays st) \<and>
   (stpos st \<noteq> int (length (stack st)) - 1 \<and> - 1 \<le> stpos st \<and>
    stpos st \<le> int (length (stack st)) - 1 \<longrightarrow>
      fst (redo st) = None \<and> stpos (snd (redo st)) = stpos st + 1 \<and>
      stack (snd (redo st)) = stack st \<and> arrays (snd (redo st)) = arrays st)"
  by (simp add: undo_def redo_def prev_def next'_def at_def Let_def)

text \<open>The four cases on the sample history: cursor at 0, at the last index 2, and at 1.\<close>

theorem undo_redo_boundaries_witness:
  "undo (demo 0) = (None, demo 0) \<and> redo (demo 2) = (None, demo 2) \<and>
   stpos (snd (undo (demo 1))) = 0 \<and> stpos (snd (redo (demo 1))) = 2 \<and>
   fst (undo (demo 1)) = None \<and> fst (redo (demo 1)) = None"
  using undo_redo_boundaries [of "demo 0"] undo_redo_boundaries [of "demo 2"]
    undo_redo_boundaries [of "demo 1"]
  by (simp add: demo_def)

text \<open>
  C5. With the cursor strictly inside the stack (from index 1 to the last but one),
  \<^verbatim>\<open>undo()\<close> followed at once by \<^verbatim>\<open>redo()\<close> brings the cursor back to its value, to the
  same entry, and leaves the entries and their stroke arrays untouched. (Each of the two
  calls has queued one image decode.)
\<close>

theorem undo_then_redo:
  assumes "1 \<le> stpos st" and "stpos st \<le> int (length (stack st)) - 2"
  shows "fst (undo st) = None \<and> fst (redo (snd (undo st))) = None \<and>
         stpos (snd (redo (snd (undo st)))) = stpos st \<and>
         stack (snd (redo (snd (undo st)))) = stack st \<and>
         arrays (snd (redo (snd (undo st)))) = arrays st \<and>
         at (stack (snd (redo (snd (undo st))))) (stpos (snd (redo (snd (undo st))))) =
           Some (stack st ! nat (stpos st)) \<and>
         at (stack st) (stpos st) = Some (stack st ! nat (stpos st)) \<and>
         snd (redo (snd (undo st))) =
           st\<lparr>pending := pending st @ [image_s (stack st ! nat (stpos st - 1)),
                                       image_s (stack st ! nat (stpos st))]\<rparr>"
  using assms by (simp add: undo_def redo_def prev_def next'_def at_def Let_def)

theorem undo_then_redo_witness:
  "1 \<le> stpos (demo 1) \<and> stpos (demo 1) \<le> int (length (stack (demo 1))) - 2 \<and>
   stpos (snd (redo (snd (undo (demo 1))))) = 1 \<and>
   stack (snd (redo (snd (undo (demo 1))))) = stack (demo 1) \<and>
   at (stack (snd (redo (snd (undo (demo 1)))))) (stpos (snd (redo (snd (undo (demo 1)))))) =
     Some \<lparr>image_s = ''one'', strokes_s = 1\<rparr>"
proof -
  have h1: "1 \<le> stpos (demo 1)" by (simp add: demo_def)
  have h2: "stpos (demo 1) \<le> int (length (stack (demo 1))) - 2" by (simp add: demo_def)
  show ?thesis
    using h1 h2 undo_then_redo [OF h1 h2] by (simp add: demo_def)
qed

text \<open>
  C10. From the state the constructor builds (empty stack, cursor \<open>-1\<close>), whatever the
  canvas and the strokes are, every sequence of \<^verbatim>\<open>reset()\<close>, \<^verbatim>\<open>undo()\<close>, \<^verbatim>\<open>redo()\<close> and
  \<^verbatim>\<open>save(evt)\<close> calls leaves the cursor between \<open>-1\<close> and the last index, and at \<open>-1\<close>
  exactly when the stack is empty. This holds for every event, so in particular for the
  saves that are not continuations.
\<close>

theorem cursor_invariant:
  "- 1 \<le> stpos (run f xs (MementoCanvas c d h l)) \<and>
   stpos (run f xs (MementoCanvas c d h l)) \<le>
     int (length (stack (run f xs (MementoCanvas c d h l)))) - 1 \<and>
   ((stpos (run f xs (MementoCanvas c d h l)) = - 1) =
    (stack (run f xs (MementoCanvas c d h l)) = []))"
proof -
  have "cursor_inv (MementoCanvas c d h l)"
    by (simp add: cursor_inv_def MementoCanvas_def)
  then have "cursor_inv (run f xs (MementoCanvas c d h l))"
    by (rule cursor_inv_run)
  then show ?thesis by (simp add: cursor_inv_def)
qed

subsection \<open>Saving\<close>

text \<open>
  C3. When an entry exists at the cursor, a continuation save (a touch whose identifier
  is greater than 0) keeps the length of the stack, the cursor, the canvas and the image
  of every entry; every other entry keeps its stroke array and that array's contents;
  the entry at the cursor gets a new array holding the current strokes, which is not
  the live array \<^verbatim>\<open>data.strokes\<close>.
\<close>

theorem continuation_save_frame:
  assumes "continuation evt" and "refs_ok st"
    and "0 \<le> stpos st" and "stpos st < int (length (stack st))"
  shows "let st' = snd (save f evt st); k = nat (stpos st) in
         fst (save f evt st) = None \<and>
         length (stack st') = length (stack st) \<and>
         stpos st' = stpos st \<and>
         map image_s (stack st') = map image_s (stack st) \<and>
         (\<forall>i < length (stack st). i \<noteq> k \<longrightarrow>
            stack st' ! i = stack st ! i \<and>
            arrays st' (strokes_s (stack st ! i)) = arrays st (strokes_s (stack st ! i))) \<and>
         arrays st' (strokes_s (stack st' ! k)) = arrays st (data_strokes st) \<and>
         strokes_s (stack st' ! k) \<noteq> data_strokes st' \<and>
         canvas st' = canvas st \<and>
         data_strokes st' = data_strokes st \<and>
         arrays st' (data_strokes st) = arrays st (data_strokes st)"
proof -
  have d: "data_strokes st < lim st" using assms(2) by (simp add: refs_ok_def)
  have n: "nat (stpos st) < length (stack st)" using assms(3,4) by simp
  have img: "map image_s ((stack st)[nat (stpos st) :=
               (stack st ! nat (stpos st))\<lparr>strokes_s := lim st\<rparr>]) = map image_s (stack st)"
    using n by (simp add: map_update list_update_same_conv)
  have others: "\<forall>i < length (stack st). strokes_s (stack st ! i) \<noteq> lim st"
    using refs_ok_nth [OF assms(2)] by fastforce
  show ?thesis
    using d n img others by (simp add: save_continuation [OF assms(1,3,4)] Let_def)
qed

text \<open>
  On the sample history with the cursor at 1, a second finger (identifier 1) is lifted:
  entry 1 now holds a copy of the live strokes \<open>[7, 8]\<close> instead of \<open>[7]\<close>, entry 2 is
  untouched.
\<close>

theorem continuation_save_frame_witness:
  "continuation (Some (Event (Some 1))) \<and> refs_ok (demo 1) \<and>
   0 \<le> stpos (demo 1) \<and> stpos (demo 1) < int (length (stack (demo 1))) \<and>
   length (stack (snd (save url_of (Some (Event (Some 1))) (demo 1)))) = 3 \<and>
   stpos (snd (save url_of (Some (Event (Some 1))) (demo 1))) = 1 \<and>
   map image_s (stack (snd (save url_of (Some (Event (Some 1))) (demo 1)))) =
     [''blank'', ''one'', ''two''] \<and>
   arrays (snd (save url_of (Some (Event (Some 1))) (demo 1)))
     (strokes_s (stack (snd (save url_of (Some (Event (Some 1))) (demo 1))) ! 1)) = [7, 8] \<and>
   stack (snd (save url_of (Some (Event (Some 1))) (demo 1))) ! 2 = stack (demo 1) ! 2"
proof -
  have h1: "continuation (Some (Event (Some 1)))" by (simp add: continuation_def)
  have h2: "refs_ok (demo 1)" by (rule refs_ok_demo)
  have h3: "0 \<le> stpos (demo 1)" by (simp add: demo_def)
  have h4: "stpos (demo 1) < int (length (stack (demo 1)))" by (simp add: demo_def)
  show ?thesis
    using h1 h2 h3 h4 continuation_save_frame [OF h1 h2 h3 h4, of url_of]
    by (simp add: Let_def demo_def demo_arrays_def)
qed

text \<open>
  C8. A save that is not a continuation discards and changes no entry: the stack grows
  by one, every entry that was there is still there at its index, with the same image,
  the same stroke array and the same contents of that array, wherever the cursor is.
\<close>

theorem save_keeps_entries:
  assumes "\<not> continuation evt" and "refs_ok st"
  shows "let st' = snd (save f evt st) in
         fst (save f evt st) = None \<and>
         length (stack st') = Suc (length (stack st)) \<and>
         take (length (stack st)) (stack st') = stack st \<and>
         (\<forall>i < length (stack st).
            stack st' ! i = stack st ! i \<and>
            arrays st' (strokes_s (stack st ! i)) = arrays st (strokes_s (stack st ! i)))"
proof -
  have others: "\<forall>i < length (stack st). strokes_s (stack st ! i) \<noteq> lim st"
    using refs_ok_nth [OF assms(2)] by fastforce
  show ?thesis
    using others by (simp add: save_new [OF assms(1)] nth_append Let_def)
qed

text \<open>The sample history with the cursor rewound to 0: the two entries ahead survive.\<close>

theorem save_keeps_entries_witness:
  "\<not> continuation None \<and> refs_ok (demo 0) \<and>
   length (stack (snd (save url_of None (demo 0)))) = 4 \<and>
   take 3 (stack (snd (save url_of None (demo 0)))) = stack (demo 0) \<and>
   arrays (snd (save url_of None (demo 0))) (strokes_s (stack (demo 0) ! 2)) = [7, 8]"
proof -
  have h1: "\<not> continuation None" by (simp add: continuation_def)
  have h2: "refs_ok (demo 0)" by (rule refs_ok_demo)
  show ?thesis
    using h1 h2 save_keeps_entries [OF h1 h2, of url_of]
    by (simp add: Let_def demo_def demo_arrays_def save_def slice_def continuation_def)
qed

text \<open>
  C7. The \<^verbatim>\<open>clear\<close> callback, from any state: the stack afterwards has exactly one
  entry, the cursor is 0, and that entry is a capture of the surface as it is when the
  callback runs (the host has just cleared it): the encoding of the canvas and a copy
  of the strokes. Nothing is thrown.
\<close>

theorem clear_resets_and_captures:
  "fst (clear_callback f st) = None \<and>
   stack (snd (clear_callback f st)) = [\<lparr>image_s = f (canvas st), strokes_s = lim st\<rparr>] \<and>
   length (stack (snd (clear_callback f st))) = 1 \<and>
   stpos (snd (clear_callback f st)) = 0 \<and>
   arrays (snd (clear_callback f st)) (lim st) = arrays st (data_strokes st) \<and>
   (canvas st = [] \<longrightarrow> map image_s (stack (snd (clear_callback f st))) = [f []])"
  by (simp add: clear_callback_def save_new continuation_def reset_def)

theorem clear_resets_and_captures_witness:
  "canvas ((demo 1)\<lparr>canvas := []\<rparr>) = [] \<and>
   map image_s (stack (snd (clear_callback url_of ((demo 1)\<lparr>canvas := []\<rparr>)))) = [[]] \<and>
   stpos (snd (clear_callback url_of ((demo 1)\<lparr>canvas := []\<rparr>))) = 0"
  using clear_resets_and_captures [of url_of "(demo 1)\<lparr>canvas := []\<rparr>"]
  by (simp add: url_of_def)

text \<open>
  C2. After a save that is not a continuation the cursor should be the last index. The
  save appends the capture and adds one to the cursor, so on a cursor that \<^verbatim>\<open>undo()\<close>
  has rewound the two differ: after attaching the plugin, two strokes, one \<^verbatim>\<open>undo()\<close>
  and a third stroke, the stack has four entries and the cursor is 2, not 3.
\<close>

theorem save_after_undo_cursor:
  "length (stack stroke_after_undo) = 4 \<and> stpos stroke_after_undo = 2 \<and>
   stpos stroke_after_undo \<noteq> int (length (stack stroke_after_undo)) - 1"
  by (simp add: stroke_after_undo_def MementoCanvas_def save_new continuation_def undo_def
      prev_def at_def Let_def)

text \<open>
  C6. A continuation save on the empty stack (after \<^verbatim>\<open>reset()\<close>) should be taken as a
  fresh capture. It throws a \<^verbatim>\<open>TypeError\<close> instead and captures nothing:
  \<^verbatim>\<open>stack[-1]\<close> is \<^verbatim>\<open>undefined\<close>.
\<close>

theorem continuation_on_empty_stack_throws:
  "save f (Some (Event (Some 1))) (reset st) = (Some TypeError, reset st) \<and>
   stack (reset st) = [] \<and> stpos (reset st) = - 1"
  by (simp add: save_def continuation_def reset_def at_def)

subsection \<open>Restoring\<close>




text \<open>
  C1, as the code has it. \<^verbatim>\<open>undo()\<close> and then \<^verbatim>\<open>redo()\<close> before any decode completes
  queue two decodes, the image of the \<^verbatim>\<open>undo\<close> target and then the image of the
  \<^verbatim>\<open>redo\<close> target, and leave the cursor where it was. A completion is never dropped:
  when the decode of \<^verbatim>\<open>undo\<close> completes it is drawn, although the cursor is no longer at
  its entry, and the strokes become a copy of those of the entry at the cursor, the
  \<^verbatim>\<open>redo\<close> target. When the decode of \<^verbatim>\<open>redo\<close> completes after it, the canvas and the
  strokes are those of the \<^verbatim>\<open>redo\<close> target.
\<close>

theorem decodes_applied_as_they_complete:
  assumes "refs_ok st" and "0 < stpos st" and "stpos st \<le> int (length (stack st)) - 1"
  shows "let n = length (pending st);
             eu = stack st ! nat (stpos st - 1);
             er = stack st ! nat (stpos st);
             st2 = snd (redo (snd (undo st)));
             a1 = snd (onload n st2);
             a2 = snd (onload n a1)
         in stpos st2 = stpos st \<and> stack st2 = stack st \<and>
            pending st2 = pending st @ [image_s eu, image_s er] \<and>
            canvas a1 = [DrawImage (image_s eu)] \<and>
            arrays a1 (data_strokes a1) = arrays st (strokes_s er) \<and>
            pending a1 = pending st @ [image_s er] \<and>
            canvas a2 = [DrawImage (image_s er)] \<and>
            arrays a2 (data_strokes a2) = arrays st (strokes_s er) \<and>
            pending a2 = pending st \<and> stpos a2 = stpos st \<and> stack a2 = stack st"
proof -
  have fresh: "strokes_s (stack st ! nat (stpos st)) \<noteq> lim st"
  proof -
    have "nat (stpos st) < length (stack st)" using assms(2,3) by simp
    then have "strokes_s (stack st ! nat (stpos st)) < lim st"
      by (rule refs_ok_nth [OF assms(1)])
    then show ?thesis by simp
  qed
  have st2: "snd (redo (snd (undo st))) =
      st\<lparr>pending := pending st @ [image_s (stack st ! nat (stpos st - 1)),
                                  image_s (stack st ! nat (stpos st))]\<rparr>"
    using assms(2,3) by (simp add: undo_def redo_def prev_step next_step)
  show ?thesis
    using assms(2,3) fresh
    by (simp add: Let_def st2 onload_def nth_append restore_step)
qed

theorem decodes_applied_as_they_complete_witness:
  "refs_ok (demo 2) \<and> 0 < stpos (demo 2) \<and> stpos (demo 2) \<le> int (length (stack (demo 2))) - 1 \<and>
   pending (snd (redo (snd (undo (demo 2))))) = [''one'', ''two''] \<and>
   canvas (snd (onload 0 (snd (redo (snd (undo (demo 2))))))) = [DrawImage ''one''] \<and>
   canvas (snd (onload 0 (snd (onload 0 (snd (redo (snd (undo (demo 2))))))))) =
     [DrawImage ''two'']"
proof -
  have h1: "refs_ok (demo 2)" by (rule refs_ok_demo)
  have h2: "0 < stpos (demo 2)" by (simp add: demo_def)
  have h3: "stpos (demo 2) \<le> int (length (stack (demo 2))) - 1" by (simp add: demo_def)
  show ?thesis
    using h1 h2 h3 decodes_applied_as_they_complete [OF h1 h2 h3]
    by (simp add: Let_def demo_def)
qed

text \<open>
  C1 as stated fails when the decodes complete in the other order: the decode of
  \<^verbatim>\<open>undo\<close> completes last, is not discarded, and the canvas ends up showing ``one'', the
  \<^verbatim>\<open>undo\<close> target, while the cursor is at ``two'', the \<^verbatim>\<open>redo\<close> target.
\<close>

theorem stale_decode_is_applied:
  "stpos race_late_undo = 2 \<and> image_s (stack race_late_undo ! 2) = ''two'' \<and>
   canvas race_late_undo = [DrawImage ''one''] \<and>
   canvas race_late_undo \<noteq> [DrawImage (image_s (stack race_late_undo ! 2))]"
  by (simp add: race_late_undo_def demo_def undo_def redo_def prev_def next'_def onload_def
      restore_def slice_def at_def Let_def)

end
